theory Spec2Isabelle
  imports Main "HOL-Library.Char_ord" "HOL-Library.List_Lexorder" "HOL-Library.Multiset"
begin

section \<open>The tags application: \<open>mayan/apps/tags/models.py\<close>\<close>

text \<open>
  The module declares one database model, \<open>Tag\<close>, with a many-to-many relation to
  \<open>Document\<close>, and a proxy model \<open>DocumentTag\<close>. Its methods mutate the database
  through the object-relational mapper and report to the event log. The database is an
  explicit state here: the table of tags, the table of the relation, and the sequence of
  the \<open>commit\<close> calls that the event types have received. Documents and users are
  represented by their primary keys.
\<close>

subsection \<open>Data model\<close>

type_synonym key = nat
type_synonym user = nat

datatype error = ValueError | IntegrityError | FieldError

datatype model_class = Tag_class | DocumentTag_class

record Meta =
  proxy :: bool
  ordering :: "string list"
  verbose_name :: string
  verbose_name_plural :: string

text \<open>An instance of \<open>Tag\<close> (or of its proxy) in memory; \<open>pk\<close> is \<open>None\<close> until saved.\<close>

record Tag =
  model :: model_class
  pk :: "key option"
  label :: string
  color :: string

text \<open>A row of the table of tags.\<close>

record tag_row =
  row_id :: key
  row_label :: string
  row_color :: string

datatype event_type =
  event_tag_attached | event_tag_created | event_tag_edited | event_tag_removed

text \<open>
  An object handed to the event layer: a tag, which is passed as the instance itself
  (\<open>self\<close>), or a document.
\<close>

datatype object_ref = Tag_object Tag | Document_object key

text \<open>One call of \<open>commit\<close> on an event type, with the arguments it was given.\<close>

record action =
  verb :: event_type
  action_object :: "object_ref option"
  actor :: "user option"
  target :: "object_ref option"

record database =
  tags_tag :: "tag_row list"
  tags_tag_documents :: "(key \<times> key) list"
  actions :: "action list"

datatype permission = permission_document_view | permission_tag_view

text \<open>The access grants: whether a user holds a permission on a document.\<close>

type_synonym acl = "user \<Rightarrow> permission \<Rightarrow> key \<Rightarrow> bool"

subsection \<open>The classes\<close>

definition Tag_Meta :: Meta where
  "Tag_Meta = \<lparr>proxy = False, ordering = [''label''],
     verbose_name = ''Tag'', verbose_name_plural = ''Tags''\<rparr>"

text \<open>
  \<open>DocumentTag.Meta\<close> sets \<open>proxy\<close> and the two names; a model that does not set
  \<open>ordering\<close> takes it from its concrete parent.
\<close>

definition DocumentTag_Meta :: Meta where
  "DocumentTag_Meta = \<lparr>proxy = True, ordering = ordering Tag_Meta,
     verbose_name = ''Document tag'', verbose_name_plural = ''Document tags''\<rparr>"

fun meta :: "model_class \<Rightarrow> Meta" where
  "meta Tag_class = Tag_Meta"
| "meta DocumentTag_class = DocumentTag_Meta"









subsection \<open>Collaborators\<close>

text \<open>
  Modelled from the spec: \<open>AccessControlList.objects.restrict_queryset\<close> of
  \<open>mayan.apps.acls\<close>, which is not among the sources. It "filters a document collection
  by viewer permission"; it "never errors; absent access simply yields empty results".
\<close>

definition restrict_queryset :: "acl \<Rightarrow> permission \<Rightarrow> key list \<Rightarrow> user \<Rightarrow> key list" where
  "restrict_queryset grants permission queryset user =
     filter (\<lambda>document. grants user permission document) queryset"

text \<open>\<open>QuerySet.count\<close>: the number of rows of the query.\<close>

definition count :: "key list \<Rightarrow> nat" where
  "count queryset = length queryset"

text \<open>
  \<open>commit\<close> of an event type: the call is appended to the log with its keyword
  arguments as given.
\<close>

definition commit ::
  "event_type \<Rightarrow> object_ref option \<Rightarrow> user option \<Rightarrow> object_ref option \<Rightarrow> database \<Rightarrow> database" where
  "commit event obj usr tgt db =
     db\<lparr>actions := actions db @
       [\<lparr>verb = event, action_object = obj, actor = usr, target = tgt\<rparr>]\<rparr>"

text \<open>
  The related manager \<open>self.documents\<close>. It is bound to the primary key of the instance,
  and creating it for an unsaved instance raises \<open>ValueError\<close>. \<open>all\<close> reads the rows of
  the relation for that key; \<open>add\<close> inserts the pair unless it is already there;
  \<open>remove\<close> deletes the matching rows, whether there are any or not.
\<close>

definition documents :: "Tag \<Rightarrow> error + key" where
  "documents self = (case pk self of None \<Rightarrow> Inl ValueError | Some k \<Rightarrow> Inr k)"

definition documents_all :: "database \<Rightarrow> key \<Rightarrow> key list" where
  "documents_all db k = map snd (filter (\<lambda>row. fst row = k) (tags_tag_documents db))"

definition documents_add :: "key \<Rightarrow> key \<Rightarrow> database \<Rightarrow> database" where
  "documents_add k document db =
     (if (k, document) \<in> set (tags_tag_documents db) then db
      else db\<lparr>tags_tag_documents := tags_tag_documents db @ [(k, document)]\<rparr>)"

definition documents_remove :: "key \<Rightarrow> key \<Rightarrow> database \<Rightarrow> database" where
  "documents_remove k document db =
     db\<lparr>tags_tag_documents := filter (\<lambda>row. row \<noteq> (k, document)) (tags_tag_documents db)\<rparr>"

subsection \<open>The methods of \<open>Tag\<close>\<close>

definition attach_to :: "database \<Rightarrow> Tag \<Rightarrow> key \<Rightarrow> user option \<Rightarrow> error + database" where
  "attach_to db self document usr =
     (case documents self of
        Inl e \<Rightarrow> Inl e
      | Inr k \<Rightarrow>
          Inr (commit event_tag_attached (Some (Tag_object self)) usr
                 (Some (Document_object document))
                 (documents_add k document db)))"

text \<open>
  The two queries take \<open>AccessControlList.objects.restrict_queryset\<close> as the parameter
  \<open>restrict\<close>: it receives the permission, the documents of the tag and the user.
  \<open>get_document_count\<close> hands over the related manager itself and \<open>get_documents\<close> its
  \<open>all()\<close>; both stand for the rows of the relation for the key of the tag.
\<close>

type_synonym restrict = "permission \<Rightarrow> key list \<Rightarrow> user \<Rightarrow> key list"

definition get_document_count :: "restrict \<Rightarrow> database \<Rightarrow> Tag \<Rightarrow> user \<Rightarrow> error + nat" where
  "get_document_count restrict db self user =
     (case documents self of
        Inl e \<Rightarrow> Inl e
      | Inr k \<Rightarrow> Inr (count (restrict permission_document_view (documents_all db k) user)))"

definition get_documents :: "restrict \<Rightarrow> database \<Rightarrow> Tag \<Rightarrow> user \<Rightarrow> error + key list" where
  "get_documents restrict db self user =
     (case documents self of
        Inl e \<Rightarrow> Inl e
      | Inr k \<Rightarrow> Inr (restrict permission_document_view (documents_all db k) user))"

definition remove_from :: "database \<Rightarrow> Tag \<Rightarrow> key \<Rightarrow> user option \<Rightarrow> error + database" where
  "remove_from db self document usr =
     (case documents self of
        Inl e \<Rightarrow> Inl e
      | Inr k \<Rightarrow>
          Inr (commit event_tag_removed (Some (Tag_object self)) usr
                 (Some (Document_object document))
                 (documents_remove k document db)))"

subsection \<open>Saving\<close>

text \<open>
  \<open>Model.save\<close> of the object-relational mapper on the table of tags. The column
  \<open>label\<close> is declared \<open>unique=True\<close>: the database refuses a row whose label another
  row already has, which the mapper raises as \<open>IntegrityError\<close>. An instance without a
  key is inserted under the next key of the sequence; an instance with a key updates its
  row, and is inserted under that key when there is no such row. The limit of 128
  characters on the label is checked by forms and, on some databases, by the column type;
  it is not represented.
\<close>

definition next_id :: "tag_row list \<Rightarrow> key" where
  "next_id rows = Suc (foldr max (map row_id rows) 0)"

definition as_row :: "key \<Rightarrow> Tag \<Rightarrow> tag_row" where
  "as_row k self = \<lparr>row_id = k, row_label = label self, row_color = color self\<rparr>"

definition Model_save :: "database \<Rightarrow> Tag \<Rightarrow> error + database \<times> Tag" where
  "Model_save db self =
     (let rows = tags_tag db in
      if label self \<in> set (map row_label (filter (\<lambda>r. Some (row_id r) \<noteq> pk self) rows))
      then Inl IntegrityError
      else
        (case pk self of
           None \<Rightarrow>
             (let k = next_id rows
              in Inr (db\<lparr>tags_tag := rows @ [as_row k self]\<rparr>, self\<lparr>pk := Some k\<rparr>))
         | Some k \<Rightarrow>
             if k \<in> set (map row_id rows)
             then Inr (db\<lparr>tags_tag :=
                         map (\<lambda>r. if row_id r = k then as_row k self else r) rows\<rparr>, self)
             else Inr (db\<lparr>tags_tag := rows @ [as_row k self]\<rparr>, self)))"

text \<open>The row that the database holds for an instance, if any.\<close>

definition stored_row :: "database \<Rightarrow> Tag \<Rightarrow> tag_row option" where
  "stored_row db self = find (\<lambda>r. Some (row_id r) = pk self) (tags_tag db)"

text \<open>
  Modelled from the spec: the decorator \<open>method_event\<close> with the event manager
  \<open>EventManagerSave\<close> of \<open>mayan.apps.events\<close>, which are not among the sources. The
  decorated method runs first and its failures propagate. Then, "on insert, emits a
  created event targeting the tag itself; on update, emits an edited event"; "saving an
  existing tag with changed fields emits exactly one edited event, none on unchanged
  save". The decoration names an event and the target \<open>self\<close> for each of the two cases,
  and nothing else, so the target is the instance as the decorated method leaves it and
  the other arguments of \<open>commit\<close> keep their default \<open>None\<close>.
\<close>

definition method_event ::
  "event_type \<Rightarrow> event_type \<Rightarrow> (database \<Rightarrow> Tag \<Rightarrow> error + database \<times> Tag) \<Rightarrow>
     database \<Rightarrow> Tag \<Rightarrow> error + database \<times> Tag" where
  "method_event created edited method db self =
     (case method db self of
        Inl e \<Rightarrow> Inl e
      | Inr (db', self') \<Rightarrow>
          (case stored_row db self of
             None \<Rightarrow>
               Inr (commit created None None (Some (Tag_object self')) db', self')
           | Some r \<Rightarrow>
               if row_label r = label self \<and> row_color r = color self
               then Inr (db', self')
               else Inr (commit edited None None (Some (Tag_object self')) db',
                         self')))"

definition save :: "database \<Rightarrow> Tag \<Rightarrow> error + database \<times> Tag" where
  "save = method_event event_tag_created event_tag_edited Model_save"

subsection \<open>Listing\<close>

text \<open>
  The default manager lists the rows of the table of the model in the order of
  \<open>Meta.ordering\<close>, the first name being the primary criterion; a name that is not a column
  raises \<open>FieldError\<close>. Labels are compared as sequences of characters, by character
  code. Each row is returned as an instance of the class that was asked.
\<close>

definition column :: "string \<Rightarrow> (tag_row \<Rightarrow> string) option" where
  "column name =
     (if name = ''label'' then Some row_label
      else if name = ''color'' then Some row_color
      else None)"

fun order_by :: "string list \<Rightarrow> tag_row list \<Rightarrow> error + tag_row list" where
  "order_by [] rows = Inr rows"
| "order_by (name # names) rows =
     (case column name of
        None \<Rightarrow> Inl FieldError
      | Some f \<Rightarrow> map_sum id (sort_key f) (order_by names rows))"

definition from_db :: "model_class \<Rightarrow> tag_row \<Rightarrow> Tag" where
  "from_db c r = \<lparr>model = c, pk = Some (row_id r), label = row_label r, color = row_color r\<rparr>"

definition objects_all :: "model_class \<Rightarrow> database \<Rightarrow> error + Tag list" where
  "objects_all c db = map_sum id (map (from_db c)) (order_by (ordering (meta c)) (tags_tag db))"

subsection \<open>Reachable databases\<close>

definition empty_database :: database where
  "empty_database = \<lparr>tags_tag = [], tags_tag_documents = [], actions = []\<rparr>"

text \<open>The databases that the methods of the module produce from the empty one.\<close>

inductive reachable :: "database \<Rightarrow> bool" where
  reachable_empty: "reachable empty_database"
| reachable_save: "reachable db \<Longrightarrow> save db self = Inr (db', self') \<Longrightarrow> reachable db'"
| reachable_attach_to:
    "reachable db \<Longrightarrow> attach_to db self document usr = Inr db' \<Longrightarrow> reachable db'"
| reachable_remove_from:
    "reachable db \<Longrightarrow> remove_from db self document usr = Inr db' \<Longrightarrow> reachable db'"

text \<open>The constraints of the table of tags: keys are pairwise distinct, and so are labels.\<close>

definition table_ok :: "tag_row list \<Rightarrow> bool" where
  "table_ok rows \<longleftrightarrow> distinct (map row_id rows) \<and> distinct (map row_label rows)"

subsection \<open>An example database\<close>

text \<open>
  Two tags saved one after the other into the empty database, and the first of them
  attached to document 7 by user 5.
\<close>

definition example_tag_invoice :: Tag where
  "example_tag_invoice =
     \<lparr>model = Tag_class, pk = Some 1, label = ''invoice'', color = ''#ff0000''\<rparr>"

definition example_tag_urgent :: Tag where
  "example_tag_urgent =
     \<lparr>model = Tag_class, pk = Some 2, label = ''urgent'', color = ''#00ff00''\<rparr>"

definition example_database :: database where
  "example_database =
     \<lparr>tags_tag =
        [\<lparr>row_id = 1, row_label = ''invoice'', row_color = ''#ff0000''\<rparr>,
         \<lparr>row_id = 2, row_label = ''urgent'', row_color = ''#00ff00''\<rparr>],
      tags_tag_documents = [(1, 7)],
      actions =
        [\<lparr>verb = event_tag_created, action_object = None, actor = None,
          target = Some (Tag_object example_tag_invoice)\<rparr>,
         \<lparr>verb = event_tag_created, action_object = None, actor = None,
          target = Some (Tag_object example_tag_urgent)\<rparr>,
         \<lparr>verb = event_tag_attached, action_object = Some (Tag_object example_tag_invoice),
          actor = Some 5, target = Some (Document_object 7)\<rparr>]\<rparr>"

text \<open>The grants of the example: user 5 may view every document, nobody else anything.\<close>

definition example_grants :: acl where
  "example_grants usr permission document \<longleftrightarrow> usr = 5 \<and> permission = permission_document_view"

section \<open>Properties\<close>

subsection \<open>Basic facts about the collaborators\<close>

lemma documents_Some: "pk self = Some k \<Longrightarrow> documents self = Inr k"
  by (simp add: documents_def)

lemma documents_all_commit [simp]: "documents_all (commit ev obj usr tgt db) k = documents_all db k"
  by (simp add: documents_all_def commit_def)

lemma tags_tag_documents_commit [simp]:
  "tags_tag_documents (commit ev obj usr tgt db) = tags_tag_documents db"
  by (simp add: commit_def)

lemma tags_tag_commit [simp]: "tags_tag (commit ev obj usr tgt db) = tags_tag db"
  by (simp add: commit_def)

lemma actions_commit [simp]:
  "actions (commit ev obj usr tgt db) =
     actions db @ [\<lparr>verb = ev, action_object = obj, actor = usr, target = tgt\<rparr>]"
  by (simp add: commit_def)

lemma documents_all_mem: "document \<in> set (documents_all db k) \<longleftrightarrow> (k, document) \<in> set (tags_tag_documents db)"
  by (force simp: documents_all_def)

lemma documents_add_mem: "document \<in> set (documents_all (documents_add k document db) k)"
  by (simp add: documents_all_mem documents_add_def)

lemma documents_remove_mem: "document \<notin> set (documents_all (documents_remove k document db) k)"
  by (simp add: documents_all_mem documents_remove_def)

lemma documents_add_present:
  "(k, document) \<in> set (tags_tag_documents db) \<Longrightarrow> documents_add k document db = db"
  by (simp add: documents_add_def)

lemma documents_remove_absent:
  "(k, document) \<notin> set (tags_tag_documents db) \<Longrightarrow> documents_remove k document db = db"
proof -
  assume "(k, document) \<notin> set (tags_tag_documents db)"
  then have "filter (\<lambda>row. row \<noteq> (k, document)) (tags_tag_documents db) = tags_tag_documents db"
    by (induction "tags_tag_documents db") (auto simp: filter_id_conv)
  then show ?thesis by (simp add: documents_remove_def)
qed

lemma actions_documents_add [simp]: "actions (documents_add k document db) = actions db"
  by (simp add: documents_add_def)

lemma actions_documents_remove [simp]: "actions (documents_remove k document db) = actions db"
  by (simp add: documents_remove_def)

subsection \<open>Counting and listing agree\<close>

text \<open>
  C1. For every tag and every user, \<open>get_document_count\<close> returns the number of documents
  in the collection that \<open>get_documents\<close> returns for the same user, whatever the access
  filter keeps; on an unsaved tag both raise the same error.
\<close>

theorem get_document_count_get_documents:
  "get_document_count restrict db self user =
     map_sum id length (get_documents restrict db self user)"
  by (simp add: get_document_count_def get_documents_def count_def split: sum.split)

subsection \<open>Attaching and removing\<close>

text \<open>
  C2. For a saved tag, a document, and a user who holds the view permission on that
  document: after \<open>attach_to\<close> the documents that \<open>get_documents\<close> returns for the user
  include the document, and after \<open>remove_from\<close> they do not.
\<close>

theorem attach_to_remove_from_get_documents:
  assumes "pk self = Some k" and "grants user permission_document_view document"
  shows "(\<exists>db' ds. attach_to db self document usr = Inr db'
            \<and> get_documents (restrict_queryset grants) db' self user = Inr ds \<and> document \<in> set ds)
       \<and> (\<exists>db' ds. remove_from db self document usr = Inr db'
            \<and> get_documents (restrict_queryset grants) db' self user = Inr ds \<and> document \<notin> set ds)"
  using assms
  by (simp add: attach_to_def remove_from_def get_documents_def documents_Some
      restrict_queryset_def documents_add_mem documents_remove_mem)

theorem attach_to_remove_from_get_documents_witness:
  "pk example_tag_invoice = Some 1 \<and> example_grants 5 permission_document_view 9
   \<and> (\<exists>db' ds. attach_to example_database example_tag_invoice 9 None = Inr db'
         \<and> get_documents (restrict_queryset example_grants) db' example_tag_invoice 5 = Inr ds \<and> 9 \<in> set ds)
   \<and> (\<exists>db' ds. remove_from example_database example_tag_invoice 9 None = Inr db'
         \<and> get_documents (restrict_queryset example_grants) db' example_tag_invoice 5 = Inr ds \<and> 9 \<notin> set ds)"
proof -
  have h1: "pk example_tag_invoice = Some 1"
    by (simp add: example_tag_invoice_def)
  have h2: "example_grants 5 permission_document_view 9"
    by (simp add: example_grants_def)
  from attach_to_remove_from_get_documents [where self = example_tag_invoice and k = 1
      and grants = example_grants and user = 5 and document = 9 and db = example_database
      and usr = None] h1 h2
  show ?thesis
    by blast
qed

text \<open>
  C4. For a saved tag, a document and an actor, one call of \<open>attach_to\<close> appends exactly
  one \<open>event_tag_attached\<close> to the log and one call of \<open>remove_from\<close> exactly one
  \<open>event_tag_removed\<close>, with the tag as action object, the given actor as actor, and the
  document as target.
\<close>

theorem attach_to_remove_from_one_event:
  assumes "pk self = Some k"
  shows "(\<exists>db'. attach_to db self document usr = Inr db'
            \<and> actions db' = actions db @
                [\<lparr>verb = event_tag_attached, action_object = Some (Tag_object self),
                  actor = usr, target = Some (Document_object document)\<rparr>])
       \<and> (\<exists>db'. remove_from db self document usr = Inr db'
            \<and> actions db' = actions db @
                [\<lparr>verb = event_tag_removed, action_object = Some (Tag_object self),
                  actor = usr, target = Some (Document_object document)\<rparr>])"
  using assms
  by (simp add: attach_to_def remove_from_def documents_Some)

theorem attach_to_remove_from_one_event_witness:
  "pk example_tag_urgent = Some 2
   \<and> (\<exists>db'. attach_to example_database example_tag_urgent 7 (Some 5) = Inr db'
         \<and> actions db' = actions example_database @
             [\<lparr>verb = event_tag_attached, action_object = Some (Tag_object example_tag_urgent),
               actor = Some 5, target = Some (Document_object 7)\<rparr>])
   \<and> (\<exists>db'. remove_from example_database example_tag_urgent 7 (Some 5) = Inr db'
         \<and> actions db' = actions example_database @
             [\<lparr>verb = event_tag_removed, action_object = Some (Tag_object example_tag_urgent),
               actor = Some 5, target = Some (Document_object 7)\<rparr>])"
proof -
  have h: "pk example_tag_urgent = Some 2"
    by (simp add: example_tag_urgent_def)
  from attach_to_remove_from_one_event [OF h] h show ?thesis
    by blast
qed

text \<open>
  C5. \<open>attach_to\<close> on a document that the tag already has leaves the relation, and so the
  documents of the tag, as they were: no second row is created.
\<close>

theorem attach_to_idempotent:
  assumes "pk self = Some k" and "document \<in> set (documents_all db k)"
  shows "\<exists>db'. attach_to db self document usr = Inr db'
           \<and> tags_tag_documents db' = tags_tag_documents db
           \<and> documents_all db' k = documents_all db k"
  using assms
  by (simp add: attach_to_def documents_Some documents_all_mem documents_add_present)

theorem attach_to_idempotent_witness:
  "pk example_tag_invoice = Some 1 \<and> 7 \<in> set (documents_all example_database 1)
   \<and> (\<exists>db'. attach_to example_database example_tag_invoice 7 None = Inr db'
         \<and> tags_tag_documents db' = tags_tag_documents example_database
         \<and> documents_all db' 1 = documents_all example_database 1)"
proof -
  have h1: "pk example_tag_invoice = Some 1"
    by (simp add: example_tag_invoice_def)
  have h2: "7 \<in> set (documents_all example_database 1)"
    by (simp add: documents_all_def example_database_def)
  from attach_to_idempotent [OF h1 h2] h1 h2 show ?thesis
    by blast
qed

text \<open>
  C6. \<open>remove_from\<close> on a document that the tag does not have raises no error and leaves
  the relation, and so the documents of the tag, as they were.
\<close>

theorem remove_from_absent:
  assumes "pk self = Some k" and "document \<notin> set (documents_all db k)"
  shows "\<exists>db'. remove_from db self document usr = Inr db'
           \<and> tags_tag_documents db' = tags_tag_documents db
           \<and> documents_all db' k = documents_all db k"
  using assms
  by (simp add: remove_from_def documents_Some documents_all_mem documents_remove_absent)

theorem remove_from_absent_witness:
  "pk example_tag_urgent = Some 2 \<and> 7 \<notin> set (documents_all example_database 2)
   \<and> (\<exists>db'. remove_from example_database example_tag_urgent 7 None = Inr db'
         \<and> tags_tag_documents db' = tags_tag_documents example_database
         \<and> documents_all db' 2 = documents_all example_database 2)"
proof -
  have h1: "pk example_tag_urgent = Some 2"
    by (simp add: example_tag_urgent_def)
  have h2: "7 \<notin> set (documents_all example_database 2)"
    by (simp add: documents_all_def example_database_def)
  from remove_from_absent [OF h1 h2] h1 h2 show ?thesis
    by blast
qed

text \<open>
  C10. The events do not depend on a change of the relation: \<open>attach_to\<close> on a document
  already attached and \<open>remove_from\<close> on a document not attached leave the relation as it
  was and still append their event; two calls in a row append two events.
\<close>

theorem events_on_noop_calls:
  assumes "pk self = Some k"
  shows "(document \<in> set (documents_all db k) \<longrightarrow>
            (\<exists>db'. attach_to db self document usr = Inr db'
               \<and> tags_tag_documents db' = tags_tag_documents db
               \<and> actions db' = actions db @
                   [\<lparr>verb = event_tag_attached, action_object = Some (Tag_object self),
                     actor = usr, target = Some (Document_object document)\<rparr>]))
       \<and> (document \<notin> set (documents_all db k) \<longrightarrow>
            (\<exists>db'. remove_from db self document usr = Inr db'
               \<and> tags_tag_documents db' = tags_tag_documents db
               \<and> actions db' = actions db @
                   [\<lparr>verb = event_tag_removed, action_object = Some (Tag_object self),
                     actor = usr, target = Some (Document_object document)\<rparr>]))
       \<and> (\<exists>db1 db2. attach_to db self document usr = Inr db1
            \<and> attach_to db1 self document usr = Inr db2
            \<and> tags_tag_documents db2 = tags_tag_documents db1
            \<and> actions db2 = actions db @
                [\<lparr>verb = event_tag_attached, action_object = Some (Tag_object self),
                  actor = usr, target = Some (Document_object document)\<rparr>,
                 \<lparr>verb = event_tag_attached, action_object = Some (Tag_object self),
                  actor = usr, target = Some (Document_object document)\<rparr>])
       \<and> (\<exists>db1 db2. remove_from db self document usr = Inr db1
            \<and> remove_from db1 self document usr = Inr db2
            \<and> tags_tag_documents db2 = tags_tag_documents db1
            \<and> actions db2 = actions db @
                [\<lparr>verb = event_tag_removed, action_object = Some (Tag_object self),
                  actor = usr, target = Some (Document_object document)\<rparr>,
                 \<lparr>verb = event_tag_removed, action_object = Some (Tag_object self),
                  actor = usr, target = Some (Document_object document)\<rparr>])"
proof (intro conjI impI)
  assume "document \<in> set (documents_all db k)"
  with assms show "\<exists>db'. attach_to db self document usr = Inr db'
      \<and> tags_tag_documents db' = tags_tag_documents db
      \<and> actions db' = actions db @
          [\<lparr>verb = event_tag_attached, action_object = Some (Tag_object self),
            actor = usr, target = Some (Document_object document)\<rparr>]"
    by (simp add: attach_to_def documents_Some
        documents_all_mem documents_add_present)
next
  assume "document \<notin> set (documents_all db k)"
  with assms show "\<exists>db'. remove_from db self document usr = Inr db'
      \<and> tags_tag_documents db' = tags_tag_documents db
      \<and> actions db' = actions db @
          [\<lparr>verb = event_tag_removed, action_object = Some (Tag_object self),
            actor = usr, target = Some (Document_object document)\<rparr>]"
    by (simp add: remove_from_def documents_Some
        documents_all_mem documents_remove_absent)
next
  have "documents_add k document (documents_add k document db) = documents_add k document db"
    by (simp add: documents_add_def)
  with assms show "\<exists>db1 db2. attach_to db self document usr = Inr db1
      \<and> attach_to db1 self document usr = Inr db2
      \<and> tags_tag_documents db2 = tags_tag_documents db1
      \<and> actions db2 = actions db @
          [\<lparr>verb = event_tag_attached, action_object = Some (Tag_object self),
            actor = usr, target = Some (Document_object document)\<rparr>,
           \<lparr>verb = event_tag_attached, action_object = Some (Tag_object self),
            actor = usr, target = Some (Document_object document)\<rparr>]"
    by (simp add: attach_to_def documents_Some
        documents_add_def)
next
  from assms show "\<exists>db1 db2. remove_from db self document usr = Inr db1
      \<and> remove_from db1 self document usr = Inr db2
      \<and> tags_tag_documents db2 = tags_tag_documents db1
      \<and> actions db2 = actions db @
          [\<lparr>verb = event_tag_removed, action_object = Some (Tag_object self),
            actor = usr, target = Some (Document_object document)\<rparr>,
           \<lparr>verb = event_tag_removed, action_object = Some (Tag_object self),
            actor = usr, target = Some (Document_object document)\<rparr>]"
    by (simp add: remove_from_def documents_Some
        documents_remove_def)
qed

theorem events_on_noop_calls_witness:
  "pk example_tag_invoice = Some 1 \<and> 7 \<in> set (documents_all example_database 1)
   \<and> (\<exists>db'. attach_to example_database example_tag_invoice 7 (Some 5) = Inr db'
         \<and> tags_tag_documents db' = tags_tag_documents example_database
         \<and> actions db' = actions example_database @
             [\<lparr>verb = event_tag_attached, action_object = Some (Tag_object example_tag_invoice),
               actor = Some 5, target = Some (Document_object 7)\<rparr>])
   \<and> pk example_tag_urgent = Some 2 \<and> 7 \<notin> set (documents_all example_database 2)
   \<and> (\<exists>db'. remove_from example_database example_tag_urgent 7 (Some 5) = Inr db'
         \<and> tags_tag_documents db' = tags_tag_documents example_database
         \<and> actions db' = actions example_database @
             [\<lparr>verb = event_tag_removed, action_object = Some (Tag_object example_tag_urgent),
               actor = Some 5, target = Some (Document_object 7)\<rparr>])"
proof -
  have h1: "pk example_tag_invoice = Some 1"
    by (simp add: example_tag_invoice_def)
  have h2: "7 \<in> set (documents_all example_database 1)"
    by (simp add: documents_all_def example_database_def)
  have h3: "pk example_tag_urgent = Some 2"
    by (simp add: example_tag_urgent_def)
  have h4: "7 \<notin> set (documents_all example_database 2)"
    by (simp add: documents_all_def example_database_def)
  from events_on_noop_calls [OF h1, of 7 example_database "Some 5"]
    events_on_noop_calls [OF h3, of 7 example_database "Some 5"] h1 h2 h3 h4
  show ?thesis
    by blast
qed

subsection \<open>Labels are unique\<close>

lemma row_id_le_max: "r \<in> set rows \<Longrightarrow> row_id r \<le> foldr max (map row_id rows) 0"
  by (induction rows) auto

lemma next_id_fresh: "next_id rows \<notin> set (map row_id rows)"
proof
  assume "next_id rows \<in> set (map row_id rows)"
  then obtain r where "r \<in> set rows" and "row_id r = next_id rows" by auto
  with row_id_le_max [of r rows] show False by (simp add: next_id_def)
qed

lemma update_keeps_ids:
  "map row_id (map (\<lambda>r. if row_id r = k then as_row k self else r) rows) = map row_id rows"
  by (induction rows) (auto simp: as_row_def)

lemma update_distinct_labels:
  assumes "distinct (map row_id rows)" and "distinct (map row_label rows)"
    and "row_label new \<notin> set (map row_label (filter (\<lambda>r. row_id r \<noteq> k) rows))"
  shows "distinct (map row_label (map (\<lambda>r. if row_id r = k then new else r) rows))"
  using assms
proof (induction rows)
  case Nil
  then show ?case by simp
next
  case (Cons r rs)
  show ?case
  proof (cases "row_id r = k")
    case True
    have absent: "\<forall>x \<in> set rs. row_id x \<noteq> k"
    proof
      fix x
      assume "x \<in> set rs"
      then have "row_id x \<in> set (map row_id rs)" by simp
      with Cons.prems(1) True show "row_id x \<noteq> k" by auto
    qed
    then have "map (\<lambda>r. if row_id r = k then new else r) rs = rs"
      by (simp add: map_idI)
    moreover from absent have "filter (\<lambda>r. row_id r \<noteq> k) rs = rs"
      by (simp add: filter_id_conv)
    ultimately show ?thesis using Cons.prems True by simp
  next
    case False
    have "set (map row_label (map (\<lambda>r. if row_id r = k then new else r) rs))
            \<subseteq> insert (row_label new) (set (map row_label rs))"
      by auto
    moreover from False Cons.prems(3) have "row_label r \<noteq> row_label new" by auto
    moreover from Cons.prems(2) have "row_label r \<notin> set (map row_label rs)" by simp
    ultimately have "row_label r \<notin> set (map row_label (map (\<lambda>r. if row_id r = k then new else r) rs))"
      by blast
    moreover have "distinct (map row_label (map (\<lambda>r. if row_id r = k then new else r) rs))"
      using Cons.IH Cons.prems False by simp
    ultimately show ?thesis using False by simp
  qed
qed

lemma Model_save_table_ok:
  assumes "table_ok (tags_tag db)" and "Model_save db self = Inr (db', self')"
  shows "table_ok (tags_tag db')"
proof (cases "pk self")
  case None
  with assms show ?thesis
    by (auto simp: Model_save_def table_ok_def Let_def next_id_fresh [simplified] as_row_def
        split: if_splits)
next
  case (Some k)
  show ?thesis
  proof (cases "k \<in> set (map row_id (tags_tag db))")
    case True
    from assms(2) Some True
    have fresh: "row_label (as_row k self) \<notin>
        set (map row_label (filter (\<lambda>r. row_id r \<noteq> k) (tags_tag db)))"
      and db': "tags_tag db' = map (\<lambda>r. if row_id r = k then as_row k self else r) (tags_tag db)"
      by (auto simp: Model_save_def Let_def as_row_def split: if_splits)
    from assms(1) have ids: "distinct (map row_id (tags_tag db))"
      and labels: "distinct (map row_label (tags_tag db))"
      by (simp_all add: table_ok_def)
    have "distinct (map row_id (tags_tag db'))"
      unfolding db' update_keeps_ids by (rule ids)
    moreover have "distinct (map row_label (tags_tag db'))"
      unfolding db' by (rule update_distinct_labels [OF ids labels fresh])
    ultimately show ?thesis by (simp add: table_ok_def)
  next
    case False
    with Some have same: "filter (\<lambda>r. Some (row_id r) \<noteq> pk self) (tags_tag db) = tags_tag db"
      by (auto simp: filter_id_conv)
    from assms(2) Some False have "label self \<notin> set (map row_label (tags_tag db))"
      and "tags_tag db' = tags_tag db @ [as_row k self]"
      unfolding Model_save_def Let_def same by (auto split: if_splits)
    with assms(1) False show ?thesis
      by (auto simp: table_ok_def as_row_def)
  qed
qed

lemma save_table_ok:
  assumes "table_ok (tags_tag db)" and "save db self = Inr (db', self')"
  shows "table_ok (tags_tag db')"
proof -
  from assms(2) obtain db1 where "Model_save db self = Inr (db1, self')"
    and "tags_tag db' = tags_tag db1"
    by (auto simp: save_def method_event_def split: sum.splits option.splits if_splits)
  with assms(1) Model_save_table_ok show ?thesis by metis
qed

lemma attach_to_tags_tag: "attach_to db self document usr = Inr db' \<Longrightarrow> tags_tag db' = tags_tag db"
  by (auto simp: attach_to_def documents_add_def split: sum.splits)

lemma remove_from_tags_tag: "remove_from db self document usr = Inr db' \<Longrightarrow> tags_tag db' = tags_tag db"
  by (auto simp: remove_from_def documents_remove_def split: sum.splits)

lemma reachable_table_ok: "reachable db \<Longrightarrow> table_ok (tags_tag db)"
proof (induction rule: reachable.induct)
  case reachable_empty
  show ?case by (simp add: empty_database_def table_ok_def)
next
  case (reachable_save db self db' self')
  then show ?case using save_table_ok by blast
next
  case (reachable_attach_to db self document usr db')
  then show ?case by (simp add: attach_to_tags_tag)
next
  case (reachable_remove_from db self document usr db')
  then show ?case by (simp add: remove_from_tags_tag)
qed

lemma save_label_taken:
  assumes "r \<in> set (tags_tag db)" and "row_label r = label self" and "Some (row_id r) \<noteq> pk self"
  shows "save db self = Inl IntegrityError"
proof -
  from assms have "label self \<in>
      set (map row_label (filter (\<lambda>r. Some (row_id r) \<noteq> pk self) (tags_tag db)))"
    by force
  then show ?thesis by (simp add: save_def method_event_def Model_save_def)
qed

lemma example_database_reachable: "reachable example_database"
proof -
  let ?db1 = "\<lparr>tags_tag = [\<lparr>row_id = 1, row_label = ''invoice'', row_color = ''#ff0000''\<rparr>],
      tags_tag_documents = [],
      actions = [\<lparr>verb = event_tag_created, action_object = None, actor = None,
          target = Some (Tag_object example_tag_invoice)\<rparr>]\<rparr>"
  let ?db2 = "\<lparr>tags_tag =
        [\<lparr>row_id = 1, row_label = ''invoice'', row_color = ''#ff0000''\<rparr>,
         \<lparr>row_id = 2, row_label = ''urgent'', row_color = ''#00ff00''\<rparr>],
      tags_tag_documents = [],
      actions =
        [\<lparr>verb = event_tag_created, action_object = None, actor = None,
          target = Some (Tag_object example_tag_invoice)\<rparr>,
         \<lparr>verb = event_tag_created, action_object = None, actor = None,
          target = Some (Tag_object example_tag_urgent)\<rparr>]\<rparr>"
  have "save empty_database (example_tag_invoice\<lparr>pk := None\<rparr>) = Inr (?db1, example_tag_invoice)"
    by (simp add: save_def method_event_def Model_save_def stored_row_def empty_database_def
        example_tag_invoice_def next_id_def as_row_def commit_def)
  then have 1: "reachable ?db1"
    using reachable_empty reachable_save by blast
  have "save ?db1 (example_tag_urgent\<lparr>pk := None\<rparr>) = Inr (?db2, example_tag_urgent)"
    by (simp add: save_def method_event_def Model_save_def stored_row_def
        example_tag_urgent_def next_id_def as_row_def commit_def)
  with 1 have 2: "reachable ?db2"
    using reachable_save by blast
  have "attach_to ?db2 example_tag_invoice 7 (Some 5) = Inr example_database"
    by (simp add: attach_to_def documents_def example_tag_invoice_def documents_add_def
        commit_def example_database_def)
  with 2 show ?thesis
    using reachable_attach_to by blast
qed

text \<open>
  C7. In every reachable database two rows of the table of tags with different keys have
  different labels; and \<open>save\<close> of an instance whose label another row has returns
  \<open>IntegrityError\<close>, the error of the storage layer, which \<open>save\<close> passes on.
\<close>

theorem label_unique_in_store:
  assumes "reachable db"
  shows "(\<forall>r \<in> set (tags_tag db). \<forall>r' \<in> set (tags_tag db).
            row_id r \<noteq> row_id r' \<longrightarrow> row_label r \<noteq> row_label r')
       \<and> (\<forall>self :: Tag. (\<exists>r \<in> set (tags_tag db). row_label r = label self \<and> Some (row_id r) \<noteq> pk self)
            \<longrightarrow> save db self = Inl IntegrityError)"
proof (intro conjI ballI impI allI)
  fix r r'
  assume "r \<in> set (tags_tag db)" and "r' \<in> set (tags_tag db)" and "row_id r \<noteq> row_id r'"
  moreover from assms have "distinct (map row_label (tags_tag db))"
    using reachable_table_ok by (simp add: table_ok_def)
  ultimately show "row_label r \<noteq> row_label r'"
    by (metis distinct_map inj_on_def)
next
  fix self :: Tag
  assume "\<exists>r \<in> set (tags_tag db). row_label r = label self \<and> Some (row_id r) \<noteq> pk self"
  then show "save db self = Inl IntegrityError"
    using save_label_taken by blast
qed

theorem label_unique_in_store_witness:
  "reachable example_database
   \<and> row_label (tags_tag example_database ! 0) \<noteq> row_label (tags_tag example_database ! 1)
   \<and> save example_database (example_tag_urgent\<lparr>label := ''invoice''\<rparr>) = Inl IntegrityError
   \<and> save example_database (example_tag_urgent\<lparr>pk := None\<rparr>) = Inl IntegrityError"
proof -
  let ?r0 = "tags_tag example_database ! 0" and ?r1 = "tags_tag example_database ! 1"
  have rows: "?r0 \<in> set (tags_tag example_database)" "?r1 \<in> set (tags_tag example_database)"
    "row_id ?r0 \<noteq> row_id ?r1"
    by (simp_all add: example_database_def)
  have clash1: "\<exists>r \<in> set (tags_tag example_database).
      row_label r = label (example_tag_urgent\<lparr>label := ''invoice''\<rparr>)
      \<and> Some (row_id r) \<noteq> pk (example_tag_urgent\<lparr>label := ''invoice''\<rparr>)"
    by (simp add: example_database_def example_tag_urgent_def)
  have clash2: "\<exists>r \<in> set (tags_tag example_database).
      row_label r = label (example_tag_urgent\<lparr>pk := None\<rparr>)
      \<and> Some (row_id r) \<noteq> pk (example_tag_urgent\<lparr>pk := None\<rparr>)"
    by (simp add: example_database_def example_tag_urgent_def)
  from label_unique_in_store [OF example_database_reachable] rows clash1 clash2
    example_database_reachable
  show ?thesis
    by blast
qed

subsection \<open>Events of \<open>save\<close>\<close>

lemma stored_row_None:
  "stored_row db self = None \<Longrightarrow> filter (\<lambda>r. Some (row_id r) \<noteq> pk self) (tags_tag db) = tags_tag db"
  by (auto simp: stored_row_def find_None_iff filter_id_conv)

lemma stored_row_Some:
  "stored_row db self = Some r \<Longrightarrow> r \<in> set (tags_tag db) \<and> pk self = Some (row_id r)"
  by (auto simp: stored_row_def find_Some_iff)

lemma Model_save_insert:
  assumes "stored_row db self = None" and "label self \<notin> set (map row_label (tags_tag db))"
  shows "\<exists>db' k. Model_save db self = Inr (db', self\<lparr>pk := Some k\<rparr>)
           \<and> actions db' = actions db"
proof (cases "pk self")
  case None
  let ?k = "next_id (tags_tag db)"
  let ?db' = "db\<lparr>tags_tag := tags_tag db @ [as_row ?k self]\<rparr>"
  from assms(2) None have "Model_save db self = Inr (?db', self\<lparr>pk := Some ?k\<rparr>)"
    unfolding Model_save_def Let_def stored_row_None [OF assms(1)] by simp
  moreover have "actions ?db' = actions db" by simp
  ultimately show ?thesis by blast
next
  case (Some k)
  let ?db' = "db\<lparr>tags_tag := tags_tag db @ [as_row k self]\<rparr>"
  from assms(1) Some have "k \<notin> set (map row_id (tags_tag db))"
    by (auto simp: stored_row_def find_None_iff)
  with assms(2) Some have "Model_save db self = Inr (?db', self)"
    unfolding Model_save_def Let_def stored_row_None [OF assms(1)] by simp
  moreover from Some have "self\<lparr>pk := Some k\<rparr> = self" by simp
  moreover have "actions ?db' = actions db" by simp
  ultimately show ?thesis by metis
qed

lemma Model_save_update:
  assumes "stored_row db self = Some r"
    and "label self \<notin> set (map row_label (filter (\<lambda>r. Some (row_id r) \<noteq> pk self) (tags_tag db)))"
  shows "\<exists>db'. Model_save db self = Inr (db', self) \<and> actions db' = actions db"
proof -
  from stored_row_Some [OF assms(1)] have "row_id r \<in> set (map row_id (tags_tag db))"
    and "pk self = Some (row_id r)" by simp_all
  with assms(2) show ?thesis
    unfolding Model_save_def Let_def by simp
qed

lemma unchanged_label_free:
  assumes "stored_row db self = Some r" and "row_label r = label self"
    and "distinct (map row_label (tags_tag db))"
  shows "label self \<notin> set (map row_label (filter (\<lambda>r. Some (row_id r) \<noteq> pk self) (tags_tag db)))"
proof
  assume "label self \<in> set (map row_label (filter (\<lambda>r. Some (row_id r) \<noteq> pk self) (tags_tag db)))"
  then obtain r' where r': "r' \<in> set (tags_tag db)" "Some (row_id r') \<noteq> pk self"
    "row_label r' = label self" by auto
  from stored_row_Some [OF assms(1)] have r: "r \<in> set (tags_tag db)" "pk self = Some (row_id r)"
    by simp_all
  from assms(3) r(1) r'(1) r'(3) assms(2) have "r' = r"
    by (metis distinct_map inj_on_def)
  with r(2) r'(2) show False by simp
qed

text \<open>
  C3. \<open>save\<close> of an instance that has no row, with a label that is free, inserts it and
  appends exactly one \<open>event_tag_created\<close> whose target is the tag; \<open>save\<close> of an instance
  whose row differs from it in label or color, the new label being free, appends exactly
  one \<open>event_tag_edited\<close> whose target is the tag; \<open>save\<close> of an instance equal to its row
  appends nothing.
\<close>

theorem save_events:
  "(stored_row db self = None \<and> label self \<notin> set (map row_label (tags_tag db))
      \<longrightarrow> (\<exists>db' k. save db self = Inr (db', self\<lparr>pk := Some k\<rparr>)
             \<and> actions db' = actions db @
                 [\<lparr>verb = event_tag_created, action_object = None, actor = None,
                   target = Some (Tag_object (self\<lparr>pk := Some k\<rparr>))\<rparr>]))
   \<and> (stored_row db self = Some r
          \<and> (row_label r \<noteq> label self \<or> row_color r \<noteq> color self)
          \<and> label self \<notin> set (map row_label
                (filter (\<lambda>r. Some (row_id r) \<noteq> pk self) (tags_tag db)))
      \<longrightarrow> (\<exists>db'. save db self = Inr (db', self)
             \<and> actions db' = actions db @
                 [\<lparr>verb = event_tag_edited, action_object = None, actor = None,
                   target = Some (Tag_object self)\<rparr>]))
   \<and> (stored_row db self = Some r
          \<and> row_label r = label self \<and> row_color r = color self
          \<and> distinct (map row_label (tags_tag db))
      \<longrightarrow> (\<exists>db'. save db self = Inr (db', self) \<and> actions db' = actions db))"
proof (intro conjI impI)
  assume "stored_row db self = None \<and> label self \<notin> set (map row_label (tags_tag db))"
  then have none: "stored_row db self = None"
    and free: "label self \<notin> set (map row_label (tags_tag db))" by simp_all
  from Model_save_insert [OF none free] obtain db1 k
    where "Model_save db self = Inr (db1, self\<lparr>pk := Some k\<rparr>)" "actions db1 = actions db"
    by blast
  with none show "\<exists>db' k. save db self = Inr (db', self\<lparr>pk := Some k\<rparr>)
      \<and> actions db' = actions db @
          [\<lparr>verb = event_tag_created, action_object = None, actor = None,
            target = Some (Tag_object (self\<lparr>pk := Some k\<rparr>))\<rparr>]"
    by (auto simp: save_def method_event_def)
next
  assume h: "stored_row db self = Some r
      \<and> (row_label r \<noteq> label self \<or> row_color r \<noteq> color self)
      \<and> label self \<notin> set (map row_label
            (filter (\<lambda>r. Some (row_id r) \<noteq> pk self) (tags_tag db)))"
  then have some: "stored_row db self = Some r"
    and free: "label self \<notin> set (map row_label
            (filter (\<lambda>r. Some (row_id r) \<noteq> pk self) (tags_tag db)))" by blast+
  from Model_save_update [OF some free] obtain db1
    where "Model_save db self = Inr (db1, self)" "actions db1 = actions db" by blast
  with h show "\<exists>db'. save db self = Inr (db', self)
      \<and> actions db' = actions db @
          [\<lparr>verb = event_tag_edited, action_object = None, actor = None,
            target = Some (Tag_object self)\<rparr>]"
    by (auto simp: save_def method_event_def)
next
  assume h: "stored_row db self = Some r
      \<and> row_label r = label self \<and> row_color r = color self
      \<and> distinct (map row_label (tags_tag db))"
  then have some: "stored_row db self = Some r" by simp
  from h have free: "label self \<notin> set (map row_label
            (filter (\<lambda>r. Some (row_id r) \<noteq> pk self) (tags_tag db)))"
    using unchanged_label_free by blast
  from Model_save_update [OF some free] obtain db1
    where "Model_save db self = Inr (db1, self)" "actions db1 = actions db" by blast
  with h show "\<exists>db'. save db self = Inr (db', self) \<and> actions db' = actions db"
    by (simp add: save_def method_event_def)
qed

theorem save_events_witness:
  "stored_row empty_database (example_tag_invoice\<lparr>pk := None\<rparr>) = None
   \<and> label (example_tag_invoice\<lparr>pk := None\<rparr>) \<notin> set (map row_label (tags_tag empty_database))
   \<and> (\<exists>db' k. save empty_database (example_tag_invoice\<lparr>pk := None\<rparr>)
           = Inr (db', example_tag_invoice\<lparr>pk := Some k\<rparr>)
         \<and> actions db' = actions empty_database @
             [\<lparr>verb = event_tag_created, action_object = None, actor = None,
               target = Some (Tag_object (example_tag_invoice\<lparr>pk := Some k\<rparr>))\<rparr>])
   \<and> stored_row example_database (example_tag_urgent\<lparr>color := ''#0000ff''\<rparr>)
       = Some (tags_tag example_database ! 1)
   \<and> (\<exists>db'. save example_database (example_tag_urgent\<lparr>color := ''#0000ff''\<rparr>)
           = Inr (db', example_tag_urgent\<lparr>color := ''#0000ff''\<rparr>)
         \<and> actions db' = actions example_database @
             [\<lparr>verb = event_tag_edited, action_object = None, actor = None,
               target = Some (Tag_object (example_tag_urgent\<lparr>color := ''#0000ff''\<rparr>))\<rparr>])
   \<and> stored_row example_database example_tag_urgent = Some (tags_tag example_database ! 1)
   \<and> (\<exists>db'. save example_database example_tag_urgent = Inr (db', example_tag_urgent)
         \<and> actions db' = actions example_database)"
proof -
  let ?new = "example_tag_invoice\<lparr>pk := None\<rparr>"
  let ?changed = "example_tag_urgent\<lparr>color := ''#0000ff''\<rparr>"
  let ?r = "tags_tag example_database ! 1"
  have a: "stored_row empty_database ?new = None
      \<and> label ?new \<notin> set (map row_label (tags_tag empty_database))"
    by (simp add: stored_row_def empty_database_def)
  have b: "stored_row example_database ?changed = Some ?r
      \<and> (row_label ?r \<noteq> label ?changed \<or> row_color ?r \<noteq> color ?changed)
      \<and> label ?changed \<notin> set (map row_label
            (filter (\<lambda>r. Some (row_id r) \<noteq> pk ?changed) (tags_tag example_database)))"
    by (simp add: stored_row_def example_database_def example_tag_urgent_def)
  have c: "stored_row example_database example_tag_urgent = Some ?r
      \<and> row_label ?r = label example_tag_urgent \<and> row_color ?r = color example_tag_urgent
      \<and> distinct (map row_label (tags_tag example_database))"
    by (simp add: stored_row_def example_database_def example_tag_urgent_def)
  from save_events [of empty_database ?new] a
    save_events [of example_database ?changed ?r] b
    save_events [of example_database example_tag_urgent ?r] c
  show ?thesis
    by (simp del: Tag.simps)
qed

subsection \<open>Listing order\<close>

lemma ordering_meta: "ordering (meta c) = [''label'']"
  by (cases c) (simp_all add: Tag_Meta_def DocumentTag_Meta_def)

lemma label_from_db: "map label (map (from_db c) rows) = map row_label rows"
  by (simp add: from_db_def)

text \<open>
  C8. The listing of the tags, for the model and for its proxy and for every database,
  succeeds, is sorted by label in ascending order, and holds the stored tags, each once.
\<close>

theorem objects_all_sorted_by_label:
  "\<exists>tags. objects_all c db = Inr tags \<and> sorted (map label tags)
     \<and> mset tags = mset (map (from_db c) (tags_tag db))"
proof -
  have "objects_all c db = Inr (map (from_db c) (sort_key row_label (tags_tag db)))"
    by (simp add: objects_all_def ordering_meta column_def)
  moreover have "sorted (map label (map (from_db c) (sort_key row_label (tags_tag db))))"
    unfolding label_from_db by (rule sorted_sort_key)
  moreover have "mset (map (from_db c) (sort_key row_label (tags_tag db)))
      = mset (map (from_db c) (tags_tag db))"
    by simp
  ultimately show ?thesis by blast
qed

subsection \<open>The proxy model\<close>








end
